theory Spec2Isabelle
  imports Complex_Main "HOL-Library.Sublist" "HOL-Library.Multiset"
begin

section \<open>The temperature analysis of \<^verbatim>\<open>app.py\<close>\<close>

text \<open>
  The program is one script. After the weather data has been fetched it builds a table of
  daily rows (\<^verbatim>\<open>df\<close>), drops the rows with a missing value, and, when a row is left,
  computes two threshold grids, two tables of day counts and eight summary figures
  (lines 129 to 286). The embedding follows these lines one by one and keeps their names.

  Numbers. A temperature is a \<^typ>\<open>rat\<close>: every finite floating-point number is a rational,
  so every input the program can receive is an input of the model. The arithmetic of the
  model is exact, with the literals \<^verbatim>\<open>5\<close> and \<^verbatim>\<open>0.2\<close> of the script read as \<open>5\<close> and
  \<open>1 / 5\<close>; the rounding of floating-point multiplication, division and addition is not
  modelled. A missing value (NaN) is \<^term>\<open>None\<close>.
\<close>

subsection \<open>The table of daily rows\<close>

text \<open>Lines 118 to 129: one row per day, with the three columns of \<^verbatim>\<open>daily_data\<close>.\<close>

record daily_row =
  date :: int
  temperature_2m_max :: "rat option"
  temperature_2m_min :: "rat option"

text \<open>
  Line 132, \<^verbatim>\<open>df = df.dropna()\<close>: a row is dropped when any of its values is missing.
  The dates come from \<^verbatim>\<open>pd.date_range\<close> and are never missing.
\<close>

fun dropna :: "daily_row list \<Rightarrow> daily_row list" where
  "dropna [] = []"
| "dropna (r # rs) =
     (if temperature_2m_max r = None \<or> temperature_2m_min r = None
      then dropna rs else r # dropna rs)"

text \<open>
  A column, \<^verbatim>\<open>df['temperature_2m_min']\<close>, read as the list of its present values. The
  operations applied to a column below (\<^verbatim>\<open>min\<close>, \<^verbatim>\<open>max\<close>, \<^verbatim>\<open>mean\<close>, a comparison
  used as a row mask) skip a missing entry or take it as false, so they read these values
  only; after \<^const>\<open>dropna\<close> no entry is missing.
\<close>

definition column_min :: "daily_row list \<Rightarrow> rat list" where
  "column_min df = List.map_filter temperature_2m_min df"

definition column_max :: "daily_row list \<Rightarrow> rat list" where
  "column_max df = List.map_filter temperature_2m_max df"

subsection \<open>Reductions of a column\<close>

text \<open>
  \<^verbatim>\<open>Series.min()\<close>, \<^verbatim>\<open>Series.max()\<close> and \<^verbatim>\<open>Series.mean()\<close>. On a column with no
  value pandas returns NaN, here \<^term>\<open>None\<close>.
\<close>

fun series_min :: "rat list \<Rightarrow> rat option" where
  "series_min [] = None"
| "series_min (v # vs) = Some (foldl min v vs)"

fun series_max :: "rat list \<Rightarrow> rat option" where
  "series_max [] = None"
| "series_max (v # vs) = Some (foldl max v vs)"

definition series_mean :: "rat list \<Rightarrow> rat option" where
  "series_mean col =
     (if length col = 0 then None else Some (foldl (+) 0 col / of_nat (length col)))"

subsection \<open>The threshold grid\<close>

text \<open>
  \<^verbatim>\<open>np.arange(start, stop, step)\<close> for a positive step: the values
  \<open>start + i * step\<close> of the half-open interval from \<open>start\<close> to \<open>stop\<close>; their number is
  the ceiling of \<open>(stop - start) / step\<close>, and none when that is not positive.
\<close>

definition arange :: "rat \<Rightarrow> rat \<Rightarrow> rat \<Rightarrow> rat list" where
  "arange start stop step =
     map (\<lambda>i. start + of_nat i * step) [0 ..< nat \<lceil>(stop - start) / step\<rceil>]"

datatype error =
  NoValidData    \<comment> \<open>line 135: no row is left after \<^const>\<open>dropna\<close>\<close>
| ValueError     \<comment> \<open>raised by \<^verbatim>\<open>np.arange\<close> on a NaN bound, caught at line 307\<close>

text \<open>
  Lines 141 to 143 (and, on the other column, 183 to 185):
  \<^verbatim>\<open>
  min_temp = np.floor(df['temperature_2m_min'].min() * 5) / 5
  max_temp = np.ceil(df['temperature_2m_min'].max() * 5) / 5
  temp_range = np.arange(min_temp, max_temp + 0.2, 0.2)
  \<close>
  The script reaches these lines with a non-empty table only. On a column with no value
  both bounds are NaN, for which \<^verbatim>\<open>np.arange\<close> raises.
\<close>

definition temp_range :: "rat list \<Rightarrow> error + rat list" where
  "temp_range col =
     (case (series_min col, series_max col) of
        (Some lowest, Some highest) \<Rightarrow>
          (let min_temp = of_int \<lfloor>lowest * 5\<rfloor> / 5;
               max_temp = of_int \<lceil>highest * 5\<rceil> / 5
           in Inr (arange min_temp (max_temp + 1 / 5) (1 / 5)))
      | _ \<Rightarrow> Inl ValueError)"

subsection \<open>The day counts\<close>

text \<open>
  Lines 146 to 149:
  \<^verbatim>\<open>
  cold_days_count = []
  for temp in temp_range:
      cold_days = len(df[df['temperature_2m_min'] < temp])
      cold_days_count.append(cold_days)
  \<close>
  The loop runs over the grid with the list built so far.
\<close>

fun cold_days_loop :: "rat list \<Rightarrow> rat list \<Rightarrow> nat list \<Rightarrow> nat list" where
  "cold_days_loop col [] cold_days_count = cold_days_count"
| "cold_days_loop col (temp # rest) cold_days_count =
     (let cold_days = length (filter (\<lambda>v. v < temp) col)
      in cold_days_loop col rest (cold_days_count @ [cold_days]))"

definition cold_days_count :: "rat list \<Rightarrow> rat list \<Rightarrow> nat list" where
  "cold_days_count col grid = cold_days_loop col grid []"

text \<open>Lines 188 to 191, the same loop with \<^verbatim>\<open>>\<close> on the column of maxima.\<close>

fun hot_days_loop :: "rat list \<Rightarrow> rat list \<Rightarrow> nat list \<Rightarrow> nat list" where
  "hot_days_loop col [] hot_days_count = hot_days_count"
| "hot_days_loop col (temp # rest) hot_days_count =
     (let hot_days = length (filter (\<lambda>v. v > temp) col)
      in hot_days_loop col rest (hot_days_count @ [hot_days]))"

definition hot_days_count :: "rat list \<Rightarrow> rat list \<Rightarrow> nat list" where
  "hot_days_count col grid = hot_days_loop col grid []"

text \<open>
  Lines 152 to 155 and 194 to 197: the chart table pairs each threshold with its count,
  row by row.
\<close>

definition chart_data :: "rat list \<Rightarrow> rat list \<Rightarrow> (rat \<times> nat) list" where
  "chart_data col grid = zip grid (cold_days_count col grid)"

definition chart_data_max :: "rat list \<Rightarrow> rat list \<Rightarrow> (rat \<times> nat) list" where
  "chart_data_max col grid = zip grid (hot_days_count col grid)"

subsection \<open>The summary and the whole analysis\<close>

text \<open>
  Lines 229 to 286, the eight figures handed to \<^verbatim>\<open>st.metric\<close>, as numbers (the script
  prints each with one decimal). "Temp Range" is the highest maximum minus the lowest
  minimum; a difference with NaN is NaN.
\<close>

record summary =
  total_days :: nat
  coldest_day :: "rat option"
  warmest_min :: "rat option"
  avg_min_temp :: "rat option"
  hottest_day :: "rat option"
  coolest_max :: "rat option"
  avg_max_temp :: "rat option"
  temp_range_metric :: "rat option"

definition nan_minus :: "rat option \<Rightarrow> rat option \<Rightarrow> rat option" where
  "nan_minus a b = (case (a, b) of (Some x, Some y) \<Rightarrow> Some (x - y) | _ \<Rightarrow> None)"

definition temperature_summary :: "daily_row list \<Rightarrow> summary" where
  "temperature_summary df =
     \<lparr> total_days = length df,
       coldest_day = series_min (column_min df),
       warmest_min = series_max (column_min df),
       avg_min_temp = series_mean (column_min df),
       hottest_day = series_max (column_max df),
       coolest_max = series_min (column_max df),
       avg_max_temp = series_mean (column_max df),
       temp_range_metric = nan_minus (series_max (column_max df)) (series_min (column_min df)) \<rparr>"

record analysis =
  cold_chart :: "(rat \<times> nat) list"
  hot_chart :: "(rat \<times> nat) list"
  metrics :: summary

text \<open>
  Lines 132 to 286 as one function of the fetched rows. The guard of line 134 comes first;
  an exception of the grid is caught at line 307 and ends the run.
\<close>

definition analyze :: "daily_row list \<Rightarrow> error + analysis" where
  "analyze rows =
     (let df = dropna rows in
      if length df = 0 then Inl NoValidData
      else
        (case temp_range (column_min df) of
           Inl e \<Rightarrow> Inl e
         | Inr grid \<Rightarrow>
            (case temp_range (column_max df) of
               Inl e \<Rightarrow> Inl e
             | Inr grid_max \<Rightarrow>
                 Inr \<lparr> cold_chart = chart_data (column_min df) grid,
                       hot_chart = chart_data_max (column_max df) grid_max,
                       metrics = temperature_summary df \<rparr>)))"

subsection \<open>The design alternative of the specification: sorted copy and binary search\<close>

text \<open>
  The script has the linear scans above only. The specification (section 4.3) names a
  second way to the same counts: sort a copy of the values once and, for each threshold,
  find the cut position by binary search. The two definitions below follow these words,
  with the bisection of Python's \<^verbatim>\<open>bisect\<close> module, to be compared with the loops of
  the script.
  \<^verbatim>\<open>
  def bisect_left(a, x, lo, hi):
      while lo < hi:
          mid = (lo + hi) // 2
          if a[mid] < x: lo = mid + 1
          else: hi = mid
      return lo
  \<close>
\<close>

function bisect_left :: "rat list \<Rightarrow> rat \<Rightarrow> nat \<Rightarrow> nat \<Rightarrow> nat" where
  "bisect_left a x lo hi =
     (if lo < hi then
        (let mid = (lo + hi) div 2 in
         if a ! mid < x then bisect_left a x (mid + 1) hi else bisect_left a x lo mid)
      else lo)"
  by pat_completeness auto
termination
  by (relation "measure (\<lambda>(a, x, lo, hi). hi - lo)") auto

function bisect_right :: "rat list \<Rightarrow> rat \<Rightarrow> nat \<Rightarrow> nat \<Rightarrow> nat" where
  "bisect_right a x lo hi =
     (if lo < hi then
        (let mid = (lo + hi) div 2 in
         if x < a ! mid then bisect_right a x lo mid else bisect_right a x (mid + 1) hi)
      else lo)"
  by pat_completeness auto
termination
  by (relation "measure (\<lambda>(a, x, lo, hi). hi - lo)") auto

definition cold_days_count_sorted :: "rat list \<Rightarrow> rat list \<Rightarrow> nat list" where
  "cold_days_count_sorted col grid =
     (let sorted_col = sort col
      in map (\<lambda>temp. bisect_left sorted_col temp 0 (length sorted_col)) grid)"

definition hot_days_count_sorted :: "rat list \<Rightarrow> rat list \<Rightarrow> nat list" where
  "hot_days_count_sorted col grid =
     (let sorted_col = sort col
      in map (\<lambda>temp. length sorted_col - bisect_right sorted_col temp 0 (length sorted_col)) grid)"

section \<open>Properties\<close>

subsection \<open>The loops as maps over the grid\<close>

lemma cold_days_loop_map:
  "cold_days_loop col grid acc = acc @ map (\<lambda>temp. length (filter (\<lambda>v. v < temp) col)) grid"
  by (induction grid arbitrary: acc) simp_all

lemma hot_days_loop_map:
  "hot_days_loop col grid acc = acc @ map (\<lambda>temp. length (filter (\<lambda>v. v > temp) col)) grid"
  by (induction grid arbitrary: acc) simp_all

lemma cold_days_count_map:
  "cold_days_count col grid = map (\<lambda>temp. length (filter (\<lambda>v. v < temp) col)) grid"
  by (simp add: cold_days_count_def cold_days_loop_map)

lemma hot_days_count_map:
  "hot_days_count col grid = map (\<lambda>temp. length (filter (\<lambda>v. v > temp) col)) grid"
  by (simp add: hot_days_count_def hot_days_loop_map)

text \<open>
  C2. The table has one row per threshold of the grid, in the order of the grid. The count
  beside a threshold \<open>t\<close> is the number of positions of the column whose value is strictly
  below \<open>t\<close> (cold days) or strictly above \<open>t\<close> (hot days), so a value equal to \<open>t\<close> is
  never counted. For the values \<open>-1.0, 0.0, 2.3\<close> the count below \<open>-0.8\<close> is 1 and the
  count below \<open>2.6\<close> is 3.
\<close>

theorem chart_data_counts:
  "map fst (chart_data col grid) = grid
   \<and> map snd (chart_data col grid) = map (\<lambda>t. card {i. i < length col \<and> col ! i < t}) grid
   \<and> map fst (chart_data_max col grid) = grid
   \<and> map snd (chart_data_max col grid) = map (\<lambda>t. card {i. i < length col \<and> col ! i > t}) grid
   \<and> chart_data [- 1, 0, 23 / 10] [- (4 / 5), 13 / 5] = [(- (4 / 5), 1), (13 / 5, 3)]"
proof -
  have 1: "map fst (chart_data col grid) = grid"
    by (simp add: chart_data_def cold_days_count_map)
  have 2: "map snd (chart_data col grid) = map (\<lambda>t. card {i. i < length col \<and> col ! i < t}) grid"
    by (simp add: chart_data_def cold_days_count_map length_filter_conv_card)
  have 3: "map fst (chart_data_max col grid) = grid"
    by (simp add: chart_data_max_def hot_days_count_map)
  have 4: "map snd (chart_data_max col grid) = map (\<lambda>t. card {i. i < length col \<and> col ! i > t}) grid"
    by (simp add: chart_data_max_def hot_days_count_map length_filter_conv_card)
  have 5: "chart_data [- 1, 0, 23 / 10] [- (4 / 5), 13 / 5] = [(- (4 / 5), 1), (13 / 5, 3::nat)]"
    by (simp add: chart_data_def cold_days_count_def)
  from 1 2 3 4 5 show ?thesis by blast
qed

subsection \<open>Monotone and bounded counts\<close>

lemma filter_lt_mono:
  fixes s t :: rat
  assumes "s \<le> t"
  shows "length (filter (\<lambda>v. v < s) col) \<le> length (filter (\<lambda>v. v < t) col)"
proof -
  have "filter (\<lambda>v. v < s) col = filter (\<lambda>v. v < s) (filter (\<lambda>v. v < t) col)"
    using assms by (auto intro!: filter_cong simp: filter_filter intro: less_le_trans)
  then show ?thesis
    by (metis length_filter_le)
qed

lemma filter_gt_mono:
  fixes s t :: rat
  assumes "s \<le> t"
  shows "length (filter (\<lambda>v. v > t) col) \<le> length (filter (\<lambda>v. v > s) col)"
proof -
  have "filter (\<lambda>v. v > t) col = filter (\<lambda>v. v > t) (filter (\<lambda>v. v > s) col)"
    using assms by (auto intro!: filter_cong simp: filter_filter intro: le_less_trans)
  then show ?thesis
    by (metis length_filter_le)
qed

text \<open>
  C3. Over a strictly increasing grid the cold-day counts never decrease from one threshold
  to the next, and the hot-day counts never increase (read backwards, they are sorted).
\<close>

theorem day_counts_monotone:
  assumes "sorted_wrt (<) grid"
  shows "sorted (cold_days_count col grid) \<and> sorted (rev (hot_days_count col grid))"
proof -
  have le: "sorted grid"
    using assms by (rule strict_sorted_imp_sorted)
  have "sorted (map (\<lambda>temp. length (filter (\<lambda>v. v < temp) col)) grid)"
    using le by (induction grid) (auto simp: filter_lt_mono)
  moreover have "sorted_wrt (\<ge>) (map (\<lambda>temp. length (filter (\<lambda>v. v > temp) col)) grid)"
    using le by (induction grid) (auto simp: filter_gt_mono)
  ultimately show ?thesis
    by (simp add: cold_days_count_map hot_days_count_map sorted_wrt_rev)
qed

theorem day_counts_monotone_witness:
  "sorted_wrt (<) [- 1, - (4 / 5), 13 / 5 :: rat]
   \<and> cold_days_count [- 1, 0, 23 / 10] [- 1, - (4 / 5), 13 / 5] = [0, 1, 3]
   \<and> hot_days_count [- 1, 0, 23 / 10] [- 1, - (4 / 5), 13 / 5] = [2, 2, 0]
   \<and> sorted (cold_days_count [- 1, 0, 23 / 10] [- 1, - (4 / 5), 13 / 5])
   \<and> sorted (rev (hot_days_count [- 1, 0, 23 / 10] [- 1, - (4 / 5), 13 / 5]))"
proof -
  have h: "sorted_wrt (<) [- 1, - (4 / 5), 13 / 5 :: rat]" by simp
  have c: "cold_days_count [- 1, 0, 23 / 10] [- 1, - (4 / 5), 13 / 5] = [0, 1, 3]"
    by (simp add: cold_days_count_def)
  have d: "hot_days_count [- 1, 0, 23 / 10] [- 1, - (4 / 5), 13 / 5] = [2, 2, 0]"
    by (simp add: hot_days_count_def)
  from day_counts_monotone [OF h, of "[- 1, 0, 23 / 10]"] h c d show ?thesis by blast
qed

text \<open>
  C10. Every count of either table is a natural number and is at most the number of values
  of the column.
\<close>

theorem day_counts_bounded:
  "(\<forall>c \<in> set (cold_days_count col grid). c \<le> length col)
   \<and> (\<forall>c \<in> set (hot_days_count col grid). c \<le> length col)"
  by (auto simp: cold_days_count_map hot_days_count_map)

theorem day_counts_bounded_witness:
  "cold_days_count [- 1, 0, 23 / 10] [- (4 / 5), 13 / 5] = [1, 3]
   \<and> hot_days_count [- 1, 0, 23 / 10] [- (4 / 5), 13 / 5] = [2, 0]
   \<and> 3 \<le> length [- 1, 0, 23 / 10 :: rat]"
proof -
  have c: "cold_days_count [- 1, 0, 23 / 10] [- (4 / 5), 13 / 5] = [1, 3]"
    by (simp add: cold_days_count_def)
  have d: "hot_days_count [- 1, 0, 23 / 10] [- (4 / 5), 13 / 5] = [2, 0]"
    by (simp add: hot_days_count_def)
  have "3 \<in> set (cold_days_count [- 1, 0, 23 / 10] [- (4 / 5), 13 / 5])"
    by (simp add: c)
  with day_counts_bounded [of "[- 1, 0, 23 / 10]" "[- (4 / 5), 13 / 5]"]
  have "3 \<le> length [- 1, 0, 23 / 10 :: rat]" by blast
  with c d show ?thesis by blast
qed

subsection \<open>Binary search on a sorted copy\<close>

declare bisect_left.simps [simp del] bisect_right.simps [simp del]

lemma length_filter_prefix:
  assumes "k \<le> length a"
    and "\<And>i. i < k \<Longrightarrow> P (a ! i)"
    and "\<And>i. k \<le> i \<Longrightarrow> i < length a \<Longrightarrow> \<not> P (a ! i)"
  shows "length (filter P a) = k"
proof -
  have "filter P (take k a) = take k a"
    using assms(1,2) by (auto simp: filter_id_conv in_set_conv_nth)
  moreover have "filter P (drop k a) = []"
    using assms(1,3) by (auto simp: filter_empty_conv in_set_conv_nth)
  moreover have "filter P a = filter P (take k a) @ filter P (drop k a)"
    by (metis append_take_drop_id filter_append)
  ultimately show ?thesis using assms(1) by simp
qed

text \<open>
  The loop invariant of \<^const>\<open>bisect_left\<close>: everything before \<open>lo\<close> is below \<open>x\<close>,
  nothing from \<open>hi\<close> on is. Then the result is the number of values below \<open>x\<close>.
\<close>

lemma bisect_left_count:
  assumes "sorted a" and "lo \<le> hi" and "hi \<le> length a"
    and "\<And>i. i < lo \<Longrightarrow> a ! i < x"
    and "\<And>i. hi \<le> i \<Longrightarrow> i < length a \<Longrightarrow> \<not> a ! i < x"
  shows "bisect_left a x lo hi = length (filter (\<lambda>v. v < x) a)"
  using assms
proof (induction a x lo hi rule: bisect_left.induct)
  case (1 a x lo hi)
  show ?case
  proof (cases "lo < hi")
    case False
    with "1.prems" have "lo = hi" by simp
    then have "length (filter (\<lambda>v. v < x) a) = lo"
      using "1.prems" by (intro length_filter_prefix) auto
    with False show ?thesis by (simp add: bisect_left.simps [of a x lo hi])
  next
    case True
    define mid where "mid = (lo + hi) div 2"
    have mid: "lo \<le> mid" "mid < hi" using True by (auto simp: mid_def)
    show ?thesis
    proof (cases "a ! mid < x")
      case below: True
      have "\<And>i. i < mid + 1 \<Longrightarrow> a ! i < x"
      proof -
        fix i assume "i < mid + 1"
        then have "a ! i \<le> a ! mid"
          using \<open>sorted a\<close> mid "1.prems"(3) by (intro sorted_nth_mono) auto
        with below show "a ! i < x" by simp
      qed
      then have "bisect_left a x (mid + 1) hi = length (filter (\<lambda>v. v < x) a)"
        using "1.IH"(1) [OF True mid_def below] "1.prems" mid by simp
      with True below show ?thesis
        by (simp add: bisect_left.simps [of a x lo hi] mid_def Let_def)
    next
      case above: False
      have "\<And>i. mid \<le> i \<Longrightarrow> i < length a \<Longrightarrow> \<not> a ! i < x"
      proof -
        fix i assume "mid \<le> i" "i < length a"
        then have "a ! mid \<le> a ! i"
          using \<open>sorted a\<close> by (intro sorted_nth_mono) auto
        with above show "\<not> a ! i < x" by simp
      qed
      then have "bisect_left a x lo mid = length (filter (\<lambda>v. v < x) a)"
        using "1.IH"(2) [OF True mid_def above] "1.prems" mid by simp
      with True above show ?thesis
        by (simp add: bisect_left.simps [of a x lo hi] mid_def Let_def)
    qed
  qed
qed

lemma bisect_right_count:
  assumes "sorted a" and "lo \<le> hi" and "hi \<le> length a"
    and "\<And>i. i < lo \<Longrightarrow> a ! i \<le> x"
    and "\<And>i. hi \<le> i \<Longrightarrow> i < length a \<Longrightarrow> \<not> a ! i \<le> x"
  shows "bisect_right a x lo hi = length (filter (\<lambda>v. v \<le> x) a)"
  using assms
proof (induction a x lo hi rule: bisect_right.induct)
  case (1 a x lo hi)
  show ?case
  proof (cases "lo < hi")
    case False
    with "1.prems" have "lo = hi" by simp
    then have "length (filter (\<lambda>v. v \<le> x) a) = lo"
      using "1.prems" by (intro length_filter_prefix) auto
    with False show ?thesis by (simp add: bisect_right.simps [of a x lo hi])
  next
    case True
    define mid where "mid = (lo + hi) div 2"
    have mid: "lo \<le> mid" "mid < hi" using True by (auto simp: mid_def)
    show ?thesis
    proof (cases "x < a ! mid")
      case above: True
      have "\<And>i. mid \<le> i \<Longrightarrow> i < length a \<Longrightarrow> \<not> a ! i \<le> x"
      proof -
        fix i assume "mid \<le> i" "i < length a"
        then have "a ! mid \<le> a ! i"
          using \<open>sorted a\<close> by (intro sorted_nth_mono) auto
        with above show "\<not> a ! i \<le> x" by simp
      qed
      then have "bisect_right a x lo mid = length (filter (\<lambda>v. v \<le> x) a)"
        using "1.IH"(1) [OF True mid_def above] "1.prems" mid by simp
      with True above show ?thesis
        by (simp add: bisect_right.simps [of a x lo hi] mid_def Let_def)
    next
      case below: False
      have "\<And>i. i < mid + 1 \<Longrightarrow> a ! i \<le> x"
      proof -
        fix i assume "i < mid + 1"
        then have "a ! i \<le> a ! mid"
          using \<open>sorted a\<close> mid "1.prems"(3) by (intro sorted_nth_mono) auto
        with below show "a ! i \<le> x" by simp
      qed
      then have "bisect_right a x (mid + 1) hi = length (filter (\<lambda>v. v \<le> x) a)"
        using "1.IH"(2) [OF True mid_def below] "1.prems" mid by simp
      with True below show ?thesis
        by (simp add: bisect_right.simps [of a x lo hi] mid_def Let_def)
    qed
  qed
qed

lemma length_filter_sort:
  "length (filter P (sort col)) = length (filter P col)"
proof -
  have "mset (filter P (sort col)) = mset (filter P col)"
    by (simp only: mset_filter mset_sort)
  then show ?thesis by (rule mset_eq_length)
qed

lemma length_filter_gt:
  fixes x :: rat
  shows "length a - length (filter (\<lambda>v. v \<le> x) a) = length (filter (\<lambda>v. v > x) a)"
proof -
  have "length a = length (filter (\<lambda>v. v \<le> x) a) + length (filter (\<lambda>v. \<not> v \<le> x) a)"
    by (rule sum_length_filter_compl [symmetric])
  moreover have "filter (\<lambda>v. \<not> v \<le> x) a = filter (\<lambda>v. v > x) a"
    by (rule filter_cong) auto
  ultimately show ?thesis by simp
qed

text \<open>
  C8. For every column and every grid, the counts found by binary search in a sorted copy
  of the column are the counts of the linear scans of the script, for the cold days
  (values below the threshold) and for the hot days (values above it).
\<close>

theorem bisect_counts_agree:
  "cold_days_count_sorted col grid = cold_days_count col grid
   \<and> hot_days_count_sorted col grid = hot_days_count col grid"
proof -
  have l: "bisect_left (sort col) t 0 (length (sort col)) = length (filter (\<lambda>v. v < t) col)" for t
  proof -
    have "bisect_left (sort col) t 0 (length (sort col)) = length (filter (\<lambda>v. v < t) (sort col))"
      by (rule bisect_left_count) simp_all
    then show ?thesis by (simp only: length_filter_sort)
  qed
  have r: "length (sort col) - bisect_right (sort col) t 0 (length (sort col))
      = length (filter (\<lambda>v. v > t) col)" for t
  proof -
    have "bisect_right (sort col) t 0 (length (sort col)) = length (filter (\<lambda>v. v \<le> t) (sort col))"
      by (rule bisect_right_count) simp_all
    then have "length (sort col) - bisect_right (sort col) t 0 (length (sort col))
       = length (filter (\<lambda>v. v > t) (sort col))"
      by (simp only: length_filter_gt)
    then show ?thesis by (simp only: length_filter_sort)
  qed
  have "cold_days_count_sorted col grid = cold_days_count col grid"
    unfolding cold_days_count_sorted_def Let_def cold_days_count_map by (simp only: l)
  moreover have "hot_days_count_sorted col grid = hot_days_count col grid"
    unfolding hot_days_count_sorted_def Let_def hot_days_count_map by (simp only: r)
  ultimately show ?thesis by simp
qed

subsection \<open>Minimum, maximum and mean as folds\<close>

lemma foldl_min_Min: "foldl min (v::rat) vs = Min (set (v # vs))"
proof (induction vs arbitrary: v)
  case Nil
  show ?case by simp
next
  case (Cons w vs)
  have "foldl min v (w # vs) = Min (set (min v w # vs))"
    using Cons.IH [of "min v w"] by simp
  also have "\<dots> = Min (set (v # w # vs))"
    by (cases vs) (simp_all add: min.assoc)
  finally show ?case .
qed

lemma foldl_max_Max: "foldl max (v::rat) vs = Max (set (v # vs))"
proof (induction vs arbitrary: v)
  case Nil
  show ?case by simp
next
  case (Cons w vs)
  have "foldl max v (w # vs) = Max (set (max v w # vs))"
    using Cons.IH [of "max v w"] by simp
  also have "\<dots> = Max (set (v # w # vs))"
    by (cases vs) (simp_all add: max.assoc)
  finally show ?case .
qed

lemma series_min_Min:
  assumes "col \<noteq> []"
  shows "series_min col = Some (Min (set col))"
proof (cases col)
  case Nil
  with assms show ?thesis by simp
next
  case (Cons v vs)
  then show ?thesis using foldl_min_Min [of v vs] by simp
qed

lemma series_max_Max:
  assumes "col \<noteq> []"
  shows "series_max col = Some (Max (set col))"
proof (cases col)
  case Nil
  with assms show ?thesis by simp
next
  case (Cons v vs)
  then show ?thesis using foldl_max_Max [of v vs] by simp
qed



subsection \<open>The shape of the threshold grid\<close>

lemma grid_steps:
  fixes a b :: int
  assumes "a \<le> b"
  shows "nat \<lceil>((of_int b / 5 + 1 / 5) - of_int a / 5) / (1 / 5 :: rat)\<rceil> = nat (b - a) + 1"
proof -
  have "((of_int b / 5 + 1 / 5) - of_int a / 5) / (1 / 5 :: rat) = of_int (b - a + 1)"
    by (simp add: field_simps)
  then have "\<lceil>((of_int b / 5 + 1 / 5) - of_int a / 5) / (1 / 5 :: rat)\<rceil> = b - a + 1"
    by (simp only: ceiling_of_int)
  then show ?thesis using assms by simp
qed

lemma floor_le_ceiling_5:
  fixes m M :: rat
  assumes "m \<le> M"
  shows "\<lfloor>m * 5\<rfloor> \<le> \<lceil>M * 5\<rceil>"
proof -
  have "of_int \<lfloor>m * 5\<rfloor> \<le> m * 5" by (rule of_int_floor_le)
  also have "\<dots> \<le> M * 5" using assms by simp
  also have "\<dots> \<le> of_int \<lceil>M * 5\<rceil>" by (rule le_of_int_ceiling)
  finally show ?thesis by simp
qed

lemma Min_le_Max_list:
  fixes col :: "rat list"
  shows "col \<noteq> [] \<Longrightarrow> Min (set col) \<le> Max (set col)"
  by (simp add: Min_le_iff)

text \<open>
  The grid of a column with a value, written out: with \<open>a\<close> the floor of five times the
  lowest value and \<open>b\<close> the ceiling of five times the highest, it is \<open>a / 5\<close>,
  \<open>a / 5 + 1 / 5\<close>, ... in \<open>b - a + 1\<close> steps. The stop value \<open>b / 5 + 1 / 5\<close> of the
  half-open range is not part of it.
\<close>

lemma temp_range_shape:
  fixes col :: "rat list"
  assumes ne: "col \<noteq> []"
  defines "a \<equiv> \<lfloor>Min (set col) * 5\<rfloor>" and "b \<equiv> \<lceil>Max (set col) * 5\<rceil>"
  shows "a \<le> b"
    and "temp_range col = Inr (map (\<lambda>i. of_int a / 5 + of_nat i * (1 / 5)) [0 ..< nat (b - a) + 1])"
proof -
  show le: "a \<le> b"
    unfolding a_def b_def by (rule floor_le_ceiling_5 [OF Min_le_Max_list [OF ne]])
  have "temp_range col = Inr (arange (of_int a / 5) (of_int b / 5 + 1 / 5) (1 / 5))"
    using ne by (simp add: temp_range_def series_min_Min series_max_Max a_def b_def)
  then show "temp_range col = Inr (map (\<lambda>i. of_int a / 5 + of_nat i * (1 / 5)) [0 ..< nat (b - a) + 1])"
    unfolding arange_def by (simp only: grid_steps [OF le])
qed








text \<open>
  C9. There is a column with a value whose cold-day count at the last threshold of its own
  grid is below the number of its values: the single value \<open>0.0\<close> has the grid \<open>[0.0]\<close>,
  and \<open>0.0 < 0.0\<close> is false, so the count there is 0 of 1.
\<close>

theorem last_threshold_misses_extremum:
  "temp_range [0] = Inr [0] \<and> cold_days_count [0] [0] = [0]
   \<and> (\<exists>col grid. col \<noteq> [] \<and> temp_range col = Inr grid \<and> grid \<noteq> []
        \<and> last (cold_days_count col grid) < length col)"
proof -
  have g: "temp_range [0] = Inr [0]"
    by (simp add: temp_range_def arange_def)
  have c: "cold_days_count [0] [0] = [0]"
    by (simp add: cold_days_count_def)
  have "[0] \<noteq> ([] :: rat list) \<and> temp_range [0] = Inr [0] \<and> [0] \<noteq> ([] :: rat list)
        \<and> last (cold_days_count [0] [0]) < length [0 :: rat]"
    by (simp add: g c)
  then have "\<exists>col grid. col \<noteq> [] \<and> temp_range col = Inr grid \<and> grid \<noteq> []
        \<and> last (cold_days_count col grid) < length col"
    by blast
  with g c show ?thesis by blast
qed

subsection \<open>Cleaning\<close>

lemma dropna_filter:
  "dropna rows = filter (\<lambda>r. temperature_2m_min r \<noteq> None \<and> temperature_2m_max r \<noteq> None) rows"
  by (induction rows) auto

text \<open>
  C7. For every list of rows, also an empty one and one with missing values,
  \<^const>\<open>dropna\<close> returns exactly the rows in which both temperatures are present, in
  their original order. Of the three rows (1, 5), (missing, 6), (2, missing), written
  (minimum, maximum), only the first is kept.
\<close>

theorem dropna_keeps_complete_rows:
  "dropna rows = filter (\<lambda>r. temperature_2m_min r \<noteq> None \<and> temperature_2m_max r \<noteq> None) rows
   \<and> subseq (dropna rows) rows
   \<and> dropna [\<lparr>date = 0, temperature_2m_max = Some 5, temperature_2m_min = Some 1\<rparr>,
              \<lparr>date = 1, temperature_2m_max = Some 6, temperature_2m_min = None\<rparr>,
              \<lparr>date = 2, temperature_2m_max = None, temperature_2m_min = Some 2\<rparr>]
       = [\<lparr>date = 0, temperature_2m_max = Some 5, temperature_2m_min = Some 1\<rparr>]"
proof -
  have "subseq (dropna rows) rows"
    by (simp only: dropna_filter subseq_filter_left)
  moreover have "dropna [\<lparr>date = 0, temperature_2m_max = Some 5, temperature_2m_min = Some 1\<rparr>,
              \<lparr>date = 1, temperature_2m_max = Some 6, temperature_2m_min = None\<rparr>,
              \<lparr>date = 2, temperature_2m_max = None, temperature_2m_min = Some 2\<rparr>]
       = [\<lparr>date = 0, temperature_2m_max = Some (5::rat), temperature_2m_min = Some (1::rat)\<rparr>]"
    by simp
  ultimately show ?thesis using dropna_filter by blast
qed

subsection \<open>The analysis as a whole\<close>

lemma column_min_dropna:
  "map Some (column_min (dropna rows)) = map temperature_2m_min (dropna rows)"
  by (induction rows) (auto simp: column_min_def List.map_filter_simps)

lemma column_max_dropna:
  "map Some (column_max (dropna rows)) = map temperature_2m_max (dropna rows)"
  by (induction rows) (auto simp: column_max_def List.map_filter_simps)

lemma length_column_min_dropna: "length (column_min (dropna rows)) = length (dropna rows)"
  using column_min_dropna [of rows] by (metis length_map)

lemma length_column_max_dropna: "length (column_max (dropna rows)) = length (dropna rows)"
  using column_max_dropna [of rows] by (metis length_map)

lemma analyze_nonempty:
  assumes "dropna rows \<noteq> []"
  shows "\<exists>grid grid_max. analyze rows =
     Inr \<lparr> cold_chart = chart_data (column_min (dropna rows)) grid,
           hot_chart = chart_data_max (column_max (dropna rows)) grid_max,
           metrics = temperature_summary (dropna rows) \<rparr>"
proof -
  have "column_min (dropna rows) \<noteq> []"
    using assms length_column_min_dropna [of rows] by auto
  then obtain grid where g: "temp_range (column_min (dropna rows)) = Inr grid"
    using temp_range_shape(2) by blast
  have "column_max (dropna rows) \<noteq> []"
    using assms length_column_max_dropna [of rows] by auto
  then obtain grid_max where gm: "temp_range (column_max (dropna rows)) = Inr grid_max"
    using temp_range_shape(2) by blast
  show ?thesis
    using assms by (auto simp: analyze_def Let_def g gm)
qed

text \<open>
  On the empty input the script builds no grid: the guard of line 134 reports that there is
  no valid data, and the grid expression by itself has no result on a column without a value.
\<close>

theorem temp_range_empty_raises:
  "temp_range [] = Inl ValueError \<and> temp_range [] \<noteq> Inr [] \<and> analyze [] = Inl NoValidData"
  by (simp add: temp_range_def analyze_def)

text \<open>
  C4, as the script has it. Cleaning the empty list gives the empty list. No grid is built
  from the empty column. Against any grid the empty column has the count 0 at every
  threshold, for cold and for hot days, one count per threshold; an empty grid gives an
  empty table. The analysis ends with the no-valid-data error, and returns no statistics,
  exactly when no row is left after cleaning.
\<close>

theorem empty_input_stages:
  "dropna [] = []
   \<and> (\<forall>grid. temp_range [] \<noteq> Inr grid)
   \<and> cold_days_count [] grid = replicate (length grid) 0
   \<and> hot_days_count [] grid = replicate (length grid) 0
   \<and> map fst (chart_data [] grid) = grid \<and> map fst (chart_data_max [] grid) = grid
   \<and> chart_data col [] = [] \<and> chart_data_max col [] = []
   \<and> (analyze rows = Inl NoValidData \<longleftrightarrow> dropna rows = [])"
proof -
  have 1: "\<forall>grid. temp_range [] \<noteq> Inr grid"
    by (simp add: temp_range_def)
  have 2: "cold_days_count [] grid = replicate (length grid) 0"
    by (simp add: cold_days_count_map map_replicate_const)
  have 3: "hot_days_count [] grid = replicate (length grid) 0"
    by (simp add: hot_days_count_map map_replicate_const)
  have 4: "map fst (chart_data [] grid) = grid" "map fst (chart_data_max [] grid) = grid"
    by (simp_all add: chart_data_def chart_data_max_def cold_days_count_map hot_days_count_map)
  have 5: "chart_data col [] = []" "chart_data_max col [] = []"
    by (simp_all add: chart_data_def chart_data_max_def)
  have 6: "analyze rows = Inl NoValidData \<longleftrightarrow> dropna rows = []"
  proof
    assume a: "analyze rows = Inl NoValidData"
    show "dropna rows = []"
    proof (rule ccontr)
      assume "dropna rows \<noteq> []"
      from analyze_nonempty [OF this] a show False by auto
    qed
  next
    assume "dropna rows = []"
    then show "analyze rows = Inl NoValidData"
      by (simp add: analyze_def)
  qed
  from 1 2 3 4 5 6 show ?thesis by simp
qed



end
